theory Spec2Isabelle
  imports Main
begin

section \<open>Cell values and Python's view of them\<close>

text \<open>
  The workspace service answers in JSON, so a cell value reaches the program as a Python
  \<^verbatim>\<open>None\<close>, \<^verbatim>\<open>bool\<close>, \<^verbatim>\<open>int\<close>, \<^verbatim>\<open>float\<close>, \<^verbatim>\<open>str\<close>, \<^verbatim>\<open>list\<close> or
  \<^verbatim>\<open>dict\<close>. A Python \<^verbatim>\<open>str\<close> is modelled by the bytes of its UTF-8 encoding.

  A \<^verbatim>\<open>float\<close> is the number \<open>m * 2 ^ e\<close> (\<open>Finite m e\<close>, which covers both zeros) or one
  of the three special values. A float value carries, next to the number, the text that
  \<^verbatim>\<open>str\<close> prints for it: the interpreter's shortest-digits printing is not computed
  here, so what is stated of all values is stated of the floats with their Python text
  too.
\<close>

datatype pyfloat = Finite int int | PosInf | NegInf | NaN

datatype pyval =
  PNone
| PBool bool
| PInt int
| PFloat pyfloat string
| PStr string
| PList "pyval list"
| PDict "(string \<times> pyval) list"

text \<open>A float against an integer, and against a float: equal when the numbers are.\<close>

fun float_eq_int :: "pyfloat \<Rightarrow> int \<Rightarrow> bool" where
  "float_eq_int (Finite m e) i = (if 0 \<le> e then m * 2 ^ nat e = i else m = i * 2 ^ nat (- e))"
| "float_eq_int _ i = False"

fun float_eq :: "pyfloat \<Rightarrow> pyfloat \<Rightarrow> bool" where
  "float_eq (Finite m e) (Finite n f) =
     (if e \<le> f then m = n * 2 ^ nat (f - e) else m * 2 ^ nat (e - f) = n)"
| "float_eq PosInf PosInf = True"
| "float_eq NegInf NegInf = True"
| "float_eq _ _ = False"

text \<open>
  Python's \<^verbatim>\<open>==\<close>: a \<^verbatim>\<open>bool\<close> is the integer 0 or 1, numbers are compared by value,
  lists element by element, dictionaries key by key, and values of unlike types differ.
\<close>

fun py_eq :: "pyval \<Rightarrow> pyval \<Rightarrow> bool" where
  "py_eq PNone PNone = True"
| "py_eq (PBool a) (PBool b) = (a = b)"
| "py_eq (PBool a) (PInt i) = ((if a then 1 else 0) = i)"
| "py_eq (PInt i) (PBool a) = (i = (if a then 1 else 0))"
| "py_eq (PInt i) (PInt j) = (i = j)"
| "py_eq (PBool a) (PFloat x t) = float_eq_int x (if a then 1 else 0)"
| "py_eq (PFloat x t) (PBool a) = float_eq_int x (if a then 1 else 0)"
| "py_eq (PInt i) (PFloat x t) = float_eq_int x i"
| "py_eq (PFloat x t) (PInt i) = float_eq_int x i"
| "py_eq (PFloat x t) (PFloat y u) = float_eq x y"
| "py_eq (PStr s) (PStr t) = (s = t)"
| "py_eq (PList xs) (PList ys) = list_all2 py_eq xs ys"
| "py_eq (PDict a) (PDict b) =
     (length a = length b
      \<and> list_all (\<lambda>kv. case map_of b (fst kv) of None \<Rightarrow> False
                          | Some v \<Rightarrow> py_eq (snd kv) v) a)"
| "py_eq _ _ = False"

text \<open>\<^verbatim>\<open>v in xs\<close> on a list: some element equals \<^verbatim>\<open>v\<close>.\<close>

definition py_in :: "pyval \<Rightarrow> pyval list \<Rightarrow> bool" where
  "py_in v xs = list_ex (\<lambda>x. py_eq x v) xs"

text \<open>The truth value \<^verbatim>\<open>bool(v)\<close>, which \<^verbatim>\<open>any\<close> tests.\<close>

fun truthy :: "pyval \<Rightarrow> bool" where
  "truthy PNone = False"
| "truthy (PBool b) = b"
| "truthy (PInt i) = (i \<noteq> 0)"
| "truthy (PFloat x t) = (\<not> float_eq_int x 0)"
| "truthy (PStr s) = (s \<noteq> [])"
| "truthy (PList xs) = (xs \<noteq> [])"
| "truthy (PDict kvs) = (kvs \<noteq> [])"

text \<open>The list literal \<^verbatim>\<open>[None, "", False, "False"]\<close> of both filters.\<close>

definition empty_values :: "pyval list" where
  "empty_values = [PNone, PStr [], PBool False, PStr ''False'']"

subsection \<open>Strings\<close>

text \<open>
  \<^verbatim>\<open>str.strip()\<close> removes the whitespace characters of Unicode at both ends. These are
  their UTF-8 encodings: U+0009 to U+000D, U+001C to U+0020, U+0085, U+00A0, U+1680,
  U+2000 to U+200A, U+2028, U+2029, U+202F, U+205F and U+3000.
\<close>

definition space_codes :: "string list" where
  "space_codes =
     [[CHR 0x09], [CHR 0x0A], [CHR 0x0B], [CHR 0x0C], [CHR 0x0D],
      [CHR 0x1C], [CHR 0x1D], [CHR 0x1E], [CHR 0x1F], [CHR 0x20],
      [CHR 0xC2, CHR 0x85], [CHR 0xC2, CHR 0xA0], [CHR 0xE1, CHR 0x9A, CHR 0x80],
      [CHR 0xE2, CHR 0x80, CHR 0x80], [CHR 0xE2, CHR 0x80, CHR 0x81],
      [CHR 0xE2, CHR 0x80, CHR 0x82], [CHR 0xE2, CHR 0x80, CHR 0x83],
      [CHR 0xE2, CHR 0x80, CHR 0x84], [CHR 0xE2, CHR 0x80, CHR 0x85],
      [CHR 0xE2, CHR 0x80, CHR 0x86], [CHR 0xE2, CHR 0x80, CHR 0x87],
      [CHR 0xE2, CHR 0x80, CHR 0x88], [CHR 0xE2, CHR 0x80, CHR 0x89],
      [CHR 0xE2, CHR 0x80, CHR 0x8A], [CHR 0xE2, CHR 0x80, CHR 0xA8],
      [CHR 0xE2, CHR 0x80, CHR 0xA9], [CHR 0xE2, CHR 0x80, CHR 0xAF],
      [CHR 0xE2, CHR 0x81, CHR 0x9F], [CHR 0xE3, CHR 0x80, CHR 0x80]]"

text \<open>The length of the code the string starts with, 0 when it starts with none.\<close>

definition code_at_head :: "string list \<Rightarrow> string \<Rightarrow> nat" where
  "code_at_head codes s =
     (case filter (\<lambda>p. p \<noteq> [] \<and> take (length p) s = p) codes of
        [] \<Rightarrow> 0
      | p # ps \<Rightarrow> length p)"

text \<open>Removing codes at the head for as long as there is one.\<close>

function drop_codes :: "string list \<Rightarrow> string \<Rightarrow> string" where
  "drop_codes codes s =
     (if code_at_head codes s = 0 then s
      else drop_codes codes (drop (code_at_head codes s) s))"
  by pat_completeness auto
termination
proof (relation "measure (\<lambda>(codes, s). length s)")
  fix codes :: "string list" and s :: string
  assume a: "code_at_head codes s \<noteq> 0"
  have "s \<noteq> []"
  proof
    assume "s = []"
    then have "filter (\<lambda>p. p \<noteq> [] \<and> take (length p) s = p) codes = []"
      by (auto simp: filter_empty_conv)
    with a show False by (simp add: code_at_head_def)
  qed
  with a show "((codes, drop (code_at_head codes s) s), (codes, s))
                 \<in> measure (\<lambda>(codes, s). length s)"
    by simp
qed simp

text \<open>
  At the end of the text the codes are looked for backwards. No byte of one UTF-8 code
  is the first byte of another, so what is removed at the end is whole characters.
\<close>

definition strip :: "string \<Rightarrow> string" where
  "strip s = rev (drop_codes (map rev space_codes) (rev (drop_codes space_codes s)))"

text \<open>
  \<^verbatim>\<open>str.lower()\<close> follows the case tables of the interpreter's Unicode database, which
  are not part of the repository: the model takes the function as it is given (the field
  \<open>py_lower\<close> of the world below). On ASCII text it is the following function, which the
  examples use.
\<close>

definition lower_char :: "char \<Rightarrow> char" where
  "lower_char c =
     (case map_of (zip ''ABCDEFGHIJKLMNOPQRSTUVWXYZ'' ''abcdefghijklmnopqrstuvwxyz'') c of
        Some l \<Rightarrow> l
      | None \<Rightarrow> c)"

definition ascii_lower :: "string \<Rightarrow> string" where
  "ascii_lower s = map lower_char s"

text \<open>\<^verbatim>\<open>sep.join(xs)\<close>.\<close>

fun join :: "string \<Rightarrow> string list \<Rightarrow> string" where
  "join sep [] = []"
| "join sep [x] = x"
| "join sep (x # y # ys) = x @ sep @ join sep (y # ys)"

text \<open>Decimal digits of a natural number, and \<^verbatim>\<open>str\<close> of an integer.\<close>

fun digits :: "nat \<Rightarrow> string" where
  "digits n =
     (if n < 10 then [''0123456789'' ! n]
      else digits (n div 10) @ [''0123456789'' ! (n mod 10)])"

definition str_int :: "int \<Rightarrow> string" where
  "str_int i = (if i < 0 then CHR ''-'' # digits (nat (- i)) else digits (nat i))"

text \<open>
  \<^verbatim>\<open>repr\<close> of a string: quoted with \<^verbatim>\<open>'\<close>, or with \<^verbatim>\<open>"\<close> when the string holds a
  \<^verbatim>\<open>'\<close> and no \<^verbatim>\<open>"\<close>; the quote, the backslash and the characters that are not
  printable escaped. The characters U+0000 to U+00FF are covered (of U+0080 to U+00FF
  the ones from U+0080 to U+00A0 and U+00AD are not printable); a character beyond
  U+00FF is copied as it is, also where Python would escape it.
\<close>

definition repr_quote :: "string \<Rightarrow> char" where
  "repr_quote s = (if CHR 0x27 \<in> set s \<and> CHR 0x22 \<notin> set s then CHR 0x22 else CHR 0x27)"

definition hex2 :: "char \<Rightarrow> string" where
  "hex2 c = [''0123456789abcdef'' ! ((of_char c :: nat) div 16),
             ''0123456789abcdef'' ! ((of_char c :: nat) mod 16)]"

definition repr_char :: "char \<Rightarrow> char \<Rightarrow> string" where
  "repr_char q c =
     (if c = q \<or> c = CHR 0x5C then [CHR 0x5C, c]
      else if c = CHR 0x09 then [CHR 0x5C, CHR ''t'']
      else if c = CHR 0x0A then [CHR 0x5C, CHR ''n'']
      else if c = CHR 0x0D then [CHR 0x5C, CHR ''r'']
      else if (of_char c :: nat) < 32 \<or> c = CHR 0x7F then [CHR 0x5C, CHR ''x''] @ hex2 c
      else [c])"

text \<open>
  The bytes \<open>0xC2 b\<close> encode the character U+00\<open>b\<close>, for \<open>b\<close> from \<open>0x80\<close> to \<open>0xBF\<close>.
\<close>

fun repr_body :: "char \<Rightarrow> string \<Rightarrow> string" where
  "repr_body q [] = []"
| "repr_body q [c] = repr_char q c"
| "repr_body q (c # b # cs) =
     (if c = CHR 0xC2 \<and> ((128 \<le> (of_char b :: nat) \<and> (of_char b :: nat) \<le> 160) \<or> b = CHR 0xAD)
      then [CHR 0x5C, CHR ''x''] @ hex2 b @ repr_body q cs
      else repr_char q c @ repr_body q (b # cs))"

definition repr_str :: "string \<Rightarrow> string" where
  "repr_str s = (let q = repr_quote s in q # repr_body q s @ [q])"

text \<open>
  \<^verbatim>\<open>str(v)\<close> (\<open>quoted = False\<close>) and \<^verbatim>\<open>repr(v)\<close> (\<open>quoted = True\<close>): they differ on
  strings only, and the elements of a list and the keys and values of a dictionary are
  shown by \<^verbatim>\<open>repr\<close>.
\<close>

fun py_show :: "bool \<Rightarrow> pyval \<Rightarrow> string" where
  "py_show quoted PNone = ''None''"
| "py_show quoted (PBool b) = (if b then ''True'' else ''False'')"
| "py_show quoted (PInt i) = str_int i"
| "py_show quoted (PFloat x t) = t"
| "py_show quoted (PStr s) = (if quoted then repr_str s else s)"
| "py_show quoted (PList xs) = ''['' @ join '', '' (map (py_show True) xs) @ '']''"
| "py_show quoted (PDict kvs) =
     ''{'' @ join '', '' (map (\<lambda>kv. repr_str (fst kv) @ '': '' @ py_show True (snd kv)) kvs)
     @ ''}''"

definition py_str :: "pyval \<Rightarrow> string" where
  "py_str v = py_show False v"

subsection \<open>Dictionaries\<close>

text \<open>
  A Python \<^verbatim>\<open>dict\<close> keeps its keys in insertion order, and an assignment to a key it
  already holds replaces the value where the key stands.
\<close>

type_synonym 'v pydict = "(string \<times> 'v) list"

fun dict_set :: "string \<Rightarrow> 'v \<Rightarrow> 'v pydict \<Rightarrow> 'v pydict" where
  "dict_set k v [] = [(k, v)]"
| "dict_set k v ((k', v') # d) =
     (if k' = k then (k', v) # d else (k', v') # dict_set k v d)"

text \<open>\<^verbatim>\<open>d.get(k, default)\<close>.\<close>

definition dict_get :: "'v pydict \<Rightarrow> string \<Rightarrow> 'v \<Rightarrow> 'v" where
  "dict_get d k dflt = (case map_of d k of Some v \<Rightarrow> v | None \<Rightarrow> dflt)"

section \<open>The workspace service and the program state\<close>

text \<open>
  The items the listing calls return. Each item carries the keys the program indexes
  (\<^verbatim>\<open>id\<close>, \<^verbatim>\<open>name\<close>, \<^verbatim>\<open>values\<close>); the parent of a table is read with
  \<^verbatim>\<open>get\<close> and may be absent.
\<close>

record doc_item =
  doc_item_id :: string
  doc_item_name :: string

record page_item =
  page_item_id :: string
  page_item_name :: string

record table_item =
  table_item_id :: string
  table_item_name :: string
  table_item_parent :: "string option"

record column_item =
  column_item_id :: string
  column_item_name :: string

type_synonym row = "pyval pydict"

text \<open>The aggregated structure the program builds.\<close>

record agg_table =
  table_name :: string
  columns :: "string list"
  rows :: "row list"

record agg_page =
  page_name :: string
  tables :: "agg_table list"

text \<open>
  A fault is the message of the exception a call raised (\<^verbatim>\<open>str(e)\<close>). The world gives,
  for every request, what \<^verbatim>\<open>requests.get(...).json().get("items", [])\<close> evaluates to,
  or the fault it raises, and the answer of the language model. The first field is the
  interpreter's \<^verbatim>\<open>str.lower\<close>.
\<close>

type_synonym fault = string

record world =
  py_lower :: "string \<Rightarrow> string"
  docs_api :: "fault + doc_item list"
  pages_api :: "string \<Rightarrow> fault + page_item list"
  tables_api :: "string \<Rightarrow> fault + table_item list"
  columns_api :: "string \<Rightarrow> string \<Rightarrow> fault + column_item list"
  rows_api :: "string \<Rightarrow> string \<Rightarrow> fault + row list"
  gemini_api :: "string \<Rightarrow> fault + string"

datatype call =
  ListDocs
| ListPages string
| ListTables string
| ListColumns string string
| ListRows string string
| Generate string

text \<open>
  The two module-level cache variables, and the log of the requests issued so far (the
  log is the model's way to say which calls a function makes).
\<close>

record state =
  coda_data_cache :: "agg_page list option"
  formatted_data_cache :: "string option"
  calls :: "call list"

definition init_state :: state where
  "init_state = \<lparr>coda_data_cache = None, formatted_data_cache = None, calls = []\<rparr>"

definition request :: "call \<Rightarrow> fault + 'a \<Rightarrow> state \<Rightarrow> (fault + 'a) \<times> state" where
  "request c r s = (r, s\<lparr>calls := calls s @ [c]\<rparr>)"

section \<open>The workspace client\<close>

definition get_all_docs :: "world \<Rightarrow> state \<Rightarrow> (fault + doc_item list) \<times> state" where
  "get_all_docs w s = request ListDocs (docs_api w) s"

text \<open>The loop of \<^verbatim>\<open>resolve_doc_id\<close> over the listed documents.\<close>

fun resolve_loop :: "world \<Rightarrow> string \<Rightarrow> doc_item list \<Rightarrow> string option" where
  "resolve_loop w doc_name [] = None"
| "resolve_loop w doc_name (d # ds) =
     (if py_lower w (strip (doc_item_name d)) = py_lower w (strip doc_name)
      then Some (doc_item_id d)
      else resolve_loop w doc_name ds)"

definition resolve_doc_id :: "world \<Rightarrow> string \<Rightarrow> state \<Rightarrow> (fault + string option) \<times> state" where
  "resolve_doc_id w doc_name s =
     (case get_all_docs w s of
        (Inl e, s1) \<Rightarrow> (Inl e, s1)
      | (Inr ds, s1) \<Rightarrow> (Inr (resolve_loop w doc_name ds), s1))"

definition get_pages :: "world \<Rightarrow> string \<Rightarrow> state \<Rightarrow> (fault + page_item list) \<times> state" where
  "get_pages w doc_id s = request (ListPages doc_id) (pages_api w doc_id) s"

definition get_tables_created_on_page ::
  "world \<Rightarrow> string \<Rightarrow> string \<Rightarrow> state \<Rightarrow> (fault + table_item list) \<times> state" where
  "get_tables_created_on_page w doc_id page_id s =
     (case request (ListTables doc_id) (tables_api w doc_id) s of
        (Inl e, s1) \<Rightarrow> (Inl e, s1)
      | (Inr all_tables, s1) \<Rightarrow>
          (Inr (filter (\<lambda>t. table_item_parent t = Some page_id) all_tables), s1))"

text \<open>The dictionary \<^verbatim>\<open>{c["id"]: c["name"] for c in cols}\<close>.\<close>

definition column_map :: "column_item list \<Rightarrow> string pydict" where
  "column_map cols = foldl (\<lambda>m c. dict_set (column_item_id c) (column_item_name c) m) [] cols"

definition get_column_map ::
  "world \<Rightarrow> string \<Rightarrow> string \<Rightarrow> state \<Rightarrow> (fault + string pydict) \<times> state" where
  "get_column_map w doc_id table_id s =
     (case request (ListColumns doc_id table_id) (columns_api w doc_id table_id) s of
        (Inl e, s1) \<Rightarrow> (Inl e, s1)
      | (Inr cols, s1) \<Rightarrow>
          (Inr (column_map cols), s1))"

text \<open>One row of \<^verbatim>\<open>get_rows\<close>: column ids rewritten to names, unknown ids kept.\<close>

definition clean_row :: "string pydict \<Rightarrow> row \<Rightarrow> row" where
  "clean_row colmap vals =
     foldl (\<lambda>clean (col_id, val). dict_set (dict_get colmap col_id col_id) val clean) [] vals"

definition get_rows ::
  "world \<Rightarrow> string \<Rightarrow> string \<Rightarrow> string pydict \<Rightarrow> state \<Rightarrow> (fault + row list) \<times> state" where
  "get_rows w doc_id table_id colmap s =
     (case request (ListRows doc_id table_id) (rows_api w doc_id table_id) s of
        (Inl e, s1) \<Rightarrow> (Inl e, s1)
      | (Inr items, s1) \<Rightarrow> (Inr (map (clean_row colmap) items), s1))"

section \<open>The aggregator\<close>

text \<open>
  \<^verbatim>\<open>has_data = any(v for v in r.values() if v not in [None, "", False, "False"])\<close>:
  the generator yields the values that are not in the list, and \<^verbatim>\<open>any\<close> asks whether
  one of them is true.
\<close>

definition has_data :: "row \<Rightarrow> bool" where
  "has_data r = list_ex truthy (filter (\<lambda>v. \<not> py_in v empty_values) (map snd r))"

text \<open>The loop that collects \<^verbatim>\<open>filtered_rows\<close>.\<close>

fun filter_rows :: "row list \<Rightarrow> row list \<Rightarrow> row list" where
  "filter_rows [] filtered_rows = filtered_rows"
| "filter_rows (r # rs) filtered_rows =
     filter_rows rs (if has_data r then filtered_rows @ [r] else filtered_rows)"

text \<open>
  The body of the \<^verbatim>\<open>try\<close> block for one table: the table's entry, or \<open>None\<close> when no
  row survives; \<open>Inl\<close> when fetching the columns or the rows raises.
\<close>

definition table_body ::
  "world \<Rightarrow> string \<Rightarrow> table_item \<Rightarrow> state \<Rightarrow> (fault + agg_table option) \<times> state" where
  "table_body w doc_id t s =
     (case get_column_map w doc_id (table_item_id t) s of
        (Inl e, s1) \<Rightarrow> (Inl e, s1)
      | (Inr colmap, s1) \<Rightarrow>
          (case get_rows w doc_id (table_item_id t) colmap s1 of
             (Inl e, s2) \<Rightarrow> (Inl e, s2)
           | (Inr rws, s2) \<Rightarrow>
               (case filter_rows rws [] of
                  [] \<Rightarrow> (Inr None, s2)
                | r0 # rest \<Rightarrow>
                    (Inr (Some \<lparr>table_name = table_item_name t, columns = map fst r0,
                                rows = r0 # rest\<rparr>), s2))))"

text \<open>
  The loop over the tables of a page. The \<^verbatim>\<open>except\<close> clause prints the fault and goes
  on with the next table, so the loop itself never raises.
\<close>

fun tables_loop ::
  "world \<Rightarrow> string \<Rightarrow> table_item list \<Rightarrow> agg_table list \<Rightarrow> state \<Rightarrow> agg_table list \<times> state" where
  "tables_loop w doc_id [] page_tables s = (page_tables, s)"
| "tables_loop w doc_id (t # ts) page_tables s =
     (case table_body w doc_id t s of
        (Inl e, s1) \<Rightarrow> tables_loop w doc_id ts page_tables s1
      | (Inr None, s1) \<Rightarrow> tables_loop w doc_id ts page_tables s1
      | (Inr (Some table_data), s1) \<Rightarrow> tables_loop w doc_id ts (page_tables @ [table_data]) s1)"

text \<open>The loop over the pages; listing the tables of a page is outside the \<^verbatim>\<open>try\<close>.\<close>

fun pages_loop ::
  "world \<Rightarrow> string \<Rightarrow> page_item list \<Rightarrow> agg_page list \<Rightarrow> state \<Rightarrow> (fault + agg_page list) \<times> state" where
  "pages_loop w doc_id [] all_data s = (Inr all_data, s)"
| "pages_loop w doc_id (p # ps) all_data s =
     (case get_tables_created_on_page w doc_id (page_item_id p) s of
        (Inl e, s1) \<Rightarrow> (Inl e, s1)
      | (Inr tbls, s1) \<Rightarrow>
          (case tables_loop w doc_id tbls [] s1 of
             (page_tables, s2) \<Rightarrow>
               pages_loop w doc_id ps
                 (if page_tables \<noteq> []
                  then all_data @ [\<lparr>page_name = page_item_name p, tables = page_tables\<rparr>]
                  else all_data) s2))"

definition get_all_coda_data ::
  "world \<Rightarrow> string \<Rightarrow> state \<Rightarrow> (fault + agg_page list) \<times> state" where
  "get_all_coda_data w doc_id s =
     (case coda_data_cache s of
        Some cached \<Rightarrow> (Inr cached, s)
      | None \<Rightarrow>
          (case get_pages w doc_id s of
             (Inl e, s1) \<Rightarrow> (Inl e, s1)
           | (Inr pages, s1) \<Rightarrow>
               (case pages_loop w doc_id pages [] s1 of
                  (Inl e, s2) \<Rightarrow> (Inl e, s2)
                | (Inr all_data, s2) \<Rightarrow>
                    (Inr all_data, s2\<lparr>coda_data_cache := Some all_data\<rparr>))))"

section \<open>The formatter\<close>

definition row_text :: "row \<Rightarrow> string" where
  "row_text r =
     join '' | '' (map (\<lambda>(k, v). k @ '': '' @ py_str v)
                     (filter (\<lambda>(k, v). \<not> py_in v empty_values) r))"

text \<open>The loop over \<^verbatim>\<open>enumerate(table['rows'], 1)\<close>, appending to the text so far.\<close>

fun rows_loop :: "nat \<Rightarrow> row list \<Rightarrow> string \<Rightarrow> string" where
  "rows_loop i [] formatted_text = formatted_text"
| "rows_loop i (r # rs) formatted_text =
     rows_loop (Suc i) rs (formatted_text @ digits i @ ''. '' @ row_text r @ ''\<newline>'')"

fun fmt_tables_loop :: "agg_table list \<Rightarrow> string \<Rightarrow> string" where
  "fmt_tables_loop [] formatted_text = formatted_text"
| "fmt_tables_loop (t # ts) formatted_text =
     fmt_tables_loop ts
       (rows_loop 1 (rows t)
          (formatted_text @ ''\<newline>TABLE: '' @ table_name t @ ''\<newline>''
             @ ''Columns: '' @ join '', '' (columns t) @ ''\<newline>'')
        @ ''\<newline>'')"

fun fmt_pages_loop :: "agg_page list \<Rightarrow> string \<Rightarrow> string" where
  "fmt_pages_loop [] formatted_text = formatted_text"
| "fmt_pages_loop (p # ps) formatted_text =
     fmt_pages_loop ps
       (fmt_tables_loop (tables p)
          (formatted_text @ ''=== PAGE: '' @ page_name p @ '' ===\<newline>''))"

definition format_data_for_gemini :: "agg_page list \<Rightarrow> state \<Rightarrow> string \<times> state" where
  "format_data_for_gemini coda_data s =
     (case formatted_data_cache s of
        Some cached \<Rightarrow> (cached, s)
      | None \<Rightarrow>
          (let formatted_text = fmt_pages_loop coda_data ''CODA DOCUMENT DATA:\<newline>\<newline>''
           in (formatted_text, s\<lparr>formatted_data_cache := Some formatted_text\<rparr>)))"

section \<open>The answer engine\<close>

definition prompt_of :: "string \<Rightarrow> string \<Rightarrow> string" where
  "prompt_of context_data question =
     ''\<newline>    You are an AI assistant analyzing data from a Coda document. \<newline>''
     @ ''    Here is the data from the Coda document:\<newline>\<newline>    ''
     @ context_data
     @ ''\<newline>\<newline>    Please analyze this data and answer the following question:\<newline>    ''
     @ question
     @ ''\<newline>\<newline>    Instructions:\<newline>''
     @ ''    1. Be specific and accurate in your answer\<newline>''
     @ ''    2. Reference actual data points from the tables when possible\<newline>''
     @ ''    3. If the data doesn't contain information to answer the question, say so\<newline>''
     @ ''    4. Provide insights based on the available data\<newline>''
     @ ''    5. Keep your response clear and concise\<newline>''
     @ ''    6. Format the response in a readable way without using markdown symbols like *\<newline>''
     @ ''\<newline>    Answer:\<newline>    ''"

text \<open>
  The model call sits in a \<^verbatim>\<open>try\<close> of its own: a fault comes back as the answer text.
\<close>

definition ask_gemini_about_data :: "world \<Rightarrow> string \<Rightarrow> string \<Rightarrow> state \<Rightarrow> string \<times> state" where
  "ask_gemini_about_data w context_data question s =
     (case request (Generate (prompt_of context_data question))
             (gemini_api w (prompt_of context_data question)) s of
        (Inl e, s1) \<Rightarrow> (''Error communicating with Gemini AI: '' @ e, s1)
      | (Inr answer, s1) \<Rightarrow> (answer, s1))"

section \<open>The request handlers\<close>

text \<open>
  What a handler raises: a fault passed on from below, or an \<^verbatim>\<open>HTTPException\<close> with its
  status code and detail. \<open>str_exn\<close> is \<^verbatim>\<open>str(e)\<close>; for an \<^verbatim>\<open>HTTPException\<close> the
  framework prints the status code and the detail.
\<close>

datatype exn = Fault fault | HTTPException nat string

fun str_exn :: "exn \<Rightarrow> string" where
  "str_exn (Fault m) = m"
| "str_exn (HTTPException code detail) = digits code @ '': '' @ detail"

datatype payload =
  RootPayload
| HealthPayload
| AIResponse string string
| CliqPayload string string
| RefreshPayload string string
| SummaryPayload string nat nat nat "(string \<times> (string \<times> nat) list) list"

definition configured_doc_name :: string where
  "configured_doc_name = ''samdanielvincy's Coda Playground''"

text \<open>The two marks the webhook texts start with, as the bytes the source file holds.\<close>

definition cross_mark :: string where
  "cross_mark = [CHR 0xE2, CHR 0x80, CHR 0x9A, CHR 0xC3, CHR 0xB9, CHR 0xC3, CHR 0xA5]"

definition robot_mark :: string where
  "robot_mark = [CHR 0xEF, CHR 0xA3, CHR 0xBF, CHR 0xC3, CHR 0xBC, CHR 0xC2, CHR 0xA7, CHR 0xC3, CHR 0xB1]"

text \<open>
  Building the context: the two statements \<^verbatim>\<open>coda_data = get_all_coda_data(doc_id)\<close> and
  \<^verbatim>\<open>formatted_data = format_data_for_gemini(coda_data)\<close> of both question handlers.
\<close>

definition build_context ::
  "world \<Rightarrow> string \<Rightarrow> state \<Rightarrow> (fault + agg_page list \<times> string) \<times> state" where
  "build_context w doc_id s =
     (case get_all_coda_data w doc_id s of
        (Inl e, s1) \<Rightarrow> (Inl e, s1)
      | (Inr coda_data, s1) \<Rightarrow>
          (case format_data_for_gemini coda_data s1 of
             (formatted_data, s2) \<Rightarrow> (Inr (coda_data, formatted_data), s2)))"

definition root :: "state \<Rightarrow> (exn + payload) \<times> state" where
  "root s = (Inr RootPayload, s)"

definition health_check :: "state \<Rightarrow> (exn + payload) \<times> state" where
  "health_check s = (Inr HealthPayload, s)"

text \<open>The \<^verbatim>\<open>try\<close> block of \<^verbatim>\<open>/ask\<close>, and the handler that turns whatever it raises into a 500.\<close>

definition ask_body :: "world \<Rightarrow> string \<Rightarrow> state \<Rightarrow> (exn + payload) \<times> state" where
  "ask_body w question s =
     (case resolve_doc_id w configured_doc_name s of
        (Inl e, s1) \<Rightarrow> (Inl (Fault e), s1)
      | (Inr None, s1) \<Rightarrow> (Inl (HTTPException 404 ''Coda document not found''), s1)
      | (Inr (Some doc_id), s1) \<Rightarrow>
          (if doc_id = [] then (Inl (HTTPException 404 ''Coda document not found''), s1)
           else
             (case build_context w doc_id s1 of
                (Inl e, s2) \<Rightarrow> (Inl (Fault e), s2)
              | (Inr (coda_data, formatted_data), s2) \<Rightarrow>
                  (case ask_gemini_about_data w formatted_data question s2 of
                     (answer, s3) \<Rightarrow> (Inr (AIResponse answer ''success''), s3)))))"

definition ask_question :: "world \<Rightarrow> string \<Rightarrow> state \<Rightarrow> (exn + payload) \<times> state" where
  "ask_question w question s =
     (case ask_body w question s of
        (Inl e, s1) \<Rightarrow> (Inl (HTTPException 500 (''Error processing request: '' @ str_exn e)), s1)
      | (Inr p, s1) \<Rightarrow> (Inr p, s1))"

text \<open>The \<^verbatim>\<open>try\<close> block of \<^verbatim>\<open>/cliq/ask\<close>, and the handler with its \<^verbatim>\<open>except\<close> clause.\<close>

definition cliq_body :: "world \<Rightarrow> string \<Rightarrow> state \<Rightarrow> (fault + payload) \<times> state" where
  "cliq_body w request_text s =
     (if strip request_text = []
      then (Inr (CliqPayload ''Please provide a question. Usage: /coda-ai <your question>''
                   ''#FF0000''), s)
      else
        (case resolve_doc_id w configured_doc_name s of
           (Inl e, s1) \<Rightarrow> (Inl e, s1)
         | (Inr None, s1) \<Rightarrow>
             (Inr (CliqPayload
                     (cross_mark @ '' Coda document not found. Please check the configuration.'')
                     ''#FF0000''), s1)
         | (Inr (Some doc_id), s1) \<Rightarrow>
             (if doc_id = []
              then (Inr (CliqPayload
                      (cross_mark @ '' Coda document not found. Please check the configuration.'')
                      ''#FF0000''), s1)
              else
                (case build_context w doc_id s1 of
                   (Inl e, s2) \<Rightarrow> (Inl e, s2)
                 | (Inr (coda_data, formatted_data), s2) \<Rightarrow>
                     (case ask_gemini_about_data w formatted_data request_text s2 of
                        (answer, s3) \<Rightarrow>
                          (Inr (CliqPayload
                                  (robot_mark @ '' **Coda AI Assistant**\<newline>\<newline>**Question:** ''
                                     @ request_text @ ''\<newline>\<newline>**Answer:** '' @ answer)
                                  ''#4CAF50''), s3))))))"

definition cliq_webhook :: "world \<Rightarrow> string \<Rightarrow> state \<Rightarrow> (exn + payload) \<times> state" where
  "cliq_webhook w request_text s =
     (case cliq_body w request_text s of
        (Inl e, s1) \<Rightarrow>
          (Inr (CliqPayload (cross_mark @ '' Error processing your question: '' @ e) ''#FF0000''), s1)
      | (Inr p, s1) \<Rightarrow> (Inr p, s1))"

text \<open>\<^verbatim>\<open>/refresh-cache\<close> has no \<^verbatim>\<open>try\<close>: a fault below leaves the handler as it is.\<close>

definition refresh_cache :: "world \<Rightarrow> state \<Rightarrow> (exn + payload) \<times> state" where
  "refresh_cache w s =
     (case resolve_doc_id w configured_doc_name
             (s\<lparr>coda_data_cache := None, formatted_data_cache := None\<rparr>) of
        (Inl e, s1) \<Rightarrow> (Inl (Fault e), s1)
      | (Inr None, s1) \<Rightarrow> (Inl (HTTPException 404 ''Coda document not found''), s1)
      | (Inr (Some doc_id), s1) \<Rightarrow>
          (if doc_id \<noteq> []
           then
             (case get_all_coda_data w doc_id s1 of
                (Inl e, s2) \<Rightarrow> (Inl (Fault e), s2)
              | (Inr coda_data, s2) \<Rightarrow>
                  (Inr (RefreshPayload ''Cache refreshed successfully'' ''success''), s2))
           else (Inl (HTTPException 404 ''Coda document not found''), s1)))"

definition summary_body :: "world \<Rightarrow> state \<Rightarrow> (exn + payload) \<times> state" where
  "summary_body w s =
     (case resolve_doc_id w configured_doc_name s of
        (Inl e, s1) \<Rightarrow> (Inl (Fault e), s1)
      | (Inr None, s1) \<Rightarrow> (Inl (HTTPException 404 ''Coda document not found''), s1)
      | (Inr (Some doc_id), s1) \<Rightarrow>
          (if doc_id = [] then (Inl (HTTPException 404 ''Coda document not found''), s1)
           else
             (case get_all_coda_data w doc_id s1 of
                (Inl e, s2) \<Rightarrow> (Inl (Fault e), s2)
              | (Inr coda_data, s2) \<Rightarrow>
                  (Inr (SummaryPayload configured_doc_name
                          (length coda_data)
                          (sum_list (map (\<lambda>p. length (tables p)) coda_data))
                          (sum_list (map (\<lambda>t. length (rows t)) (concat (map tables coda_data))))
                          (map (\<lambda>p. (page_name p,
                                       map (\<lambda>t. (table_name t, length (rows t))) (tables p)))
                               coda_data)), s2))))"

definition get_data_summary :: "world \<Rightarrow> state \<Rightarrow> (exn + payload) \<times> state" where
  "get_data_summary w s =
     (case summary_body w s of
        (Inl e, s1) \<Rightarrow> (Inl (HTTPException 500 (''Error getting data summary: '' @ str_exn e)), s1)
      | (Inr p, s1) \<Rightarrow> (Inr p, s1))"

text \<open>One request to the service, and a sequence of them, each against the world of its moment.\<close>

datatype req = GetRoot | GetHealth | PostAsk string | PostCliqAsk string | PostRefreshCache | GetDataSummary

fun handle :: "world \<Rightarrow> req \<Rightarrow> state \<Rightarrow> (exn + payload) \<times> state" where
  "handle w GetRoot s = root s"
| "handle w GetHealth s = health_check s"
| "handle w (PostAsk question) s = ask_question w question s"
| "handle w (PostCliqAsk request_text) s = cliq_webhook w request_text s"
| "handle w PostRefreshCache s = refresh_cache w s"
| "handle w GetDataSummary s = get_data_summary w s"

fun run :: "(world \<times> req) list \<Rightarrow> state \<Rightarrow> state" where
  "run [] s = s"
| "run ((w, r) # rest) s = run rest (snd (handle w r s))"

section \<open>Notions the properties are stated with\<close>

text \<open>A listed document matches a name when both, trimmed and lowercased, are equal.\<close>

definition doc_matches :: "world \<Rightarrow> string \<Rightarrow> doc_item \<Rightarrow> bool" where
  "doc_matches w doc_name d =
     (py_lower w (strip (doc_item_name d)) = py_lower w (strip doc_name))"

text \<open>
  The values that do not make a row count: the four of the list, the numbers that are
  zero, the empty list and the empty dictionary.
\<close>

fun no_data_value :: "pyval \<Rightarrow> bool" where
  "no_data_value PNone = True"
| "no_data_value (PBool b) = (\<not> b)"
| "no_data_value (PInt i) = (i = 0)"
| "no_data_value (PFloat x t) = float_eq_int x 0"
| "no_data_value (PStr s) = (s = [] \<or> s = ''False'')"
| "no_data_value (PList xs) = (xs = [])"
| "no_data_value (PDict kvs) = (kvs = [])"

text \<open>When the formatted text is cached, the aggregated list is cached too.\<close>

definition cache_inv :: "state \<Rightarrow> bool" where
  "cache_inv s = (formatted_data_cache s \<noteq> None \<longrightarrow> coda_data_cache s \<noteq> None)"

text \<open>
  The rows of a table that the row filter of the aggregator keeps (the test \<open>has_data\<close>
  of the code); none when fetching its columns or its rows faults.
\<close>

definition kept_rows :: "world \<Rightarrow> string \<Rightarrow> table_item \<Rightarrow> row list" where
  "kept_rows w doc_id t =
     (case columns_api w doc_id (table_item_id t) of
        Inl e \<Rightarrow> []
      | Inr cols \<Rightarrow>
          (case rows_api w doc_id (table_item_id t) of
             Inl e \<Rightarrow> []
           | Inr items \<Rightarrow> filter has_data (map (clean_row (column_map cols)) items)))"

text \<open>
  A table with the rows the filter keeps, under the keys of the first of them; the tables
  of a page that have such a row, in the order of the listing; the pages that have such a
  table, in the order of the listing.
\<close>

definition surviving_table :: "world \<Rightarrow> string \<Rightarrow> table_item \<Rightarrow> agg_table" where
  "surviving_table w doc_id t =
     \<lparr>table_name = table_item_name t, columns = map fst (hd (kept_rows w doc_id t)),
      rows = kept_rows w doc_id t\<rparr>"

definition surviving_tables :: "world \<Rightarrow> string \<Rightarrow> table_item list \<Rightarrow> page_item \<Rightarrow> agg_table list" where
  "surviving_tables w doc_id ts p =
     map (surviving_table w doc_id)
       (filter (\<lambda>t. kept_rows w doc_id t \<noteq> [])
          (filter (\<lambda>t. table_item_parent t = Some (page_item_id p)) ts))"

definition surviving_pages ::
  "world \<Rightarrow> string \<Rightarrow> page_item list \<Rightarrow> table_item list \<Rightarrow> agg_page list" where
  "surviving_pages w doc_id ps ts =
     map (\<lambda>p. \<lparr>page_name = page_item_name p, tables = surviving_tables w doc_id ts p\<rparr>)
       (filter (\<lambda>p. surviving_tables w doc_id ts p \<noteq> []) ps)"

text \<open>The payload that asks for a question.\<close>

definition usage_hint :: payload where
  "usage_hint = CliqPayload ''Please provide a question. Usage: /coda-ai <your question>'' ''#FF0000''"

text \<open>
  The text of the formatter in its parts: the numbered line of a row, the block of a
  table, the section of a page.
\<close>

definition row_line :: "nat \<Rightarrow> row \<Rightarrow> string" where
  "row_line i r = digits i @ ''. '' @ row_text r @ ''\<newline>''"

definition table_block :: "agg_table \<Rightarrow> string" where
  "table_block t =
     ''\<newline>TABLE: '' @ table_name t @ ''\<newline>'' @ ''Columns: '' @ join '', '' (columns t) @ ''\<newline>''
     @ concat (map (\<lambda>(i, r). row_line i r) (zip [1 ..< Suc (length (rows t))] (rows t)))
     @ ''\<newline>''"

definition page_block :: "agg_page \<Rightarrow> string" where
  "page_block p = ''=== PAGE: '' @ page_name p @ '' ===\<newline>'' @ concat (map table_block (tables p))"

section \<open>An example workspace\<close>

text \<open>
  Two documents under the configured name, the first of them in another case, after a
  no-break space (U+00A0) and a blank and before an em space (U+2003); two pages; and
  four tables: one with a full and a blank row, one with blank rows only, one whose
  columns cannot be fetched, one without a parent page. All names are ASCII but for the
  blanks, so \<open>ascii_lower\<close> is what \<^verbatim>\<open>str.lower\<close> does here.
\<close>

definition demo_docs :: "doc_item list" where
  "demo_docs = [\<lparr>doc_item_id = ''d0'', doc_item_name = ''Other''\<rparr>,
                \<lparr>doc_item_id = ''d1'',
                 doc_item_name = [CHR 0xC2, CHR 0xA0] @ '' SamDanielVincy's CODA Playground''
                                 @ [CHR 0xE2, CHR 0x80, CHR 0x83]\<rparr>,
                \<lparr>doc_item_id = ''d2'', doc_item_name = ''samdanielvincy's coda playground''\<rparr>]"

definition demo_pages :: "page_item list" where
  "demo_pages = [\<lparr>page_item_id = ''p1'', page_item_name = ''P1''\<rparr>,
                 \<lparr>page_item_id = ''p2'', page_item_name = ''P2''\<rparr>]"

definition demo_tables :: "table_item list" where
  "demo_tables =
     [\<lparr>table_item_id = ''t1'', table_item_name = ''T1'', table_item_parent = Some ''p1''\<rparr>,
      \<lparr>table_item_id = ''t2'', table_item_name = ''T2'', table_item_parent = Some ''p1''\<rparr>,
      \<lparr>table_item_id = ''t3'', table_item_name = ''T3'', table_item_parent = Some ''p2''\<rparr>,
      \<lparr>table_item_id = ''t4'', table_item_name = ''T4'', table_item_parent = None\<rparr>]"

definition demo_rows :: "row list" where
  "demo_rows = [[(''c1'', PStr ''A''), (''c2'', PInt 1)], [(''c1'', PStr []), (''c2'', PStr [])]]"

definition demo_world :: world where
  "demo_world =
     \<lparr>py_lower = ascii_lower,
      docs_api = Inr demo_docs,
      pages_api = (\<lambda>d. Inr demo_pages),
      tables_api = (\<lambda>d. Inr demo_tables),
      columns_api = (\<lambda>d t. if t = ''t3'' then Inl ''timeout''
                            else Inr [\<lparr>column_item_id = ''c1'', column_item_name = ''Name''\<rparr>,
                                      \<lparr>column_item_id = ''c2'', column_item_name = ''Qty''\<rparr>]),
      rows_api = (\<lambda>d t. if t = ''t1'' then Inr demo_rows
                         else Inr [[(''c1'', PBool False), (''c2'', PNone)]]),
      gemini_api = (\<lambda>p. Inr ''One item.'')\<rparr>"

definition demo_data :: "agg_page list" where
  "demo_data =
     [\<lparr>page_name = ''P1'',
       tables = [\<lparr>table_name = ''T1'', columns = [''Name'', ''Qty''],
                  rows = [[(''Name'', PStr ''A''), (''Qty'', PInt 1)]]\<rparr>]\<rparr>]"

definition demo_text :: string where
  "demo_text =
     ''CODA DOCUMENT DATA:\<newline>\<newline>=== PAGE: P1 ===\<newline>''
     @ ''\<newline>TABLE: T1\<newline>Columns: Name, Qty\<newline>1. Name: A | Qty: 1\<newline>\<newline>''"

text \<open>The same workspace when listing the tables fails, and when the model call fails.\<close>

definition broken_world :: world where
  "broken_world = demo_world\<lparr>tables_api := (\<lambda>d. Inl ''boom'')\<rparr>"

definition mute_world :: world where
  "mute_world = demo_world\<lparr>gemini_api := (\<lambda>p. Inl ''quota exceeded'')\<rparr>"


text \<open>An aggregated list with a row that holds the number zero.\<close>

definition zero_data :: "agg_page list" where
  "zero_data =
     [\<lparr>page_name = ''P1'',
       tables = [\<lparr>table_name = ''T1'', columns = [''Name'', ''Qty''],
                  rows = [[(''Name'', PStr ''A''), (''Qty'', PInt 0)],
                          [(''Name'', PStr ''B''), (''Qty'', PInt 2)]]\<rparr>]\<rparr>]"

text \<open>The same workspace without the configured document, and when listing the documents fails.\<close>

definition lost_world :: world where
  "lost_world = demo_world\<lparr>docs_api := Inr [\<lparr>doc_item_id = ''d0'', doc_item_name = ''Other''\<rparr>]\<rparr>"

definition down_world :: world where
  "down_world = demo_world\<lparr>docs_api := Inl ''unreachable''\<rparr>"

section \<open>Document resolution\<close>

lemma resolve_loop_None: "resolve_loop w n ds = None \<longleftrightarrow> \<not> list_ex (doc_matches w n) ds"
  by (induction ds) (auto simp: doc_matches_def)

lemma resolve_loop_Some:
  "resolve_loop w n ds = Some i \<longleftrightarrow>
     (\<exists>k < length ds. doc_matches w n (ds ! k) \<and> \<not> list_ex (doc_matches w n) (take k ds)
        \<and> i = doc_item_id (ds ! k))"
proof (induction ds)
  case Nil
  then show ?case by simp
next
  case (Cons d ds)
  let ?P = "\<lambda>xs k. doc_matches w n (xs ! k) \<and> \<not> list_ex (doc_matches w n) (take k xs)
              \<and> i = doc_item_id (xs ! k)"
  show ?case
  proof (cases "doc_matches w n d")
    case True
    have "(\<exists>k < length (d # ds). ?P (d # ds) k) \<longleftrightarrow> i = doc_item_id d"
    proof
      assume "\<exists>k < length (d # ds). ?P (d # ds) k"
      then obtain k where k: "\<not> list_ex (doc_matches w n) (take k (d # ds))"
        "i = doc_item_id ((d # ds) ! k)" by blast
      from k(1) True have "k = 0" by (cases k) auto
      with k(2) show "i = doc_item_id d" by simp
    next
      assume "i = doc_item_id d"
      then show "\<exists>k < length (d # ds). ?P (d # ds) k"
        using True by (intro exI[of _ 0]) simp
    qed
    moreover from True have "resolve_loop w n (d # ds) = Some (doc_item_id d)"
      by (simp add: doc_matches_def)
    ultimately show ?thesis by (simp only: option.inject) blast
  next
    case False
    have "(\<exists>k < length (d # ds). ?P (d # ds) k) \<longleftrightarrow> (\<exists>k < length ds. ?P ds k)"
      (is "?L \<longleftrightarrow> ?R")
    proof
      assume ?L
      then obtain k where k: "k < length (d # ds)" "?P (d # ds) k" by blast
      from k(2) False obtain k' where "k = Suc k'" by (cases k) auto
      with k show ?R by (intro exI[of _ k']) auto
    next
      assume ?R
      then obtain k where "k < length ds" "?P ds k" by blast
      then show ?L using False by (intro exI[of _ "Suc k"]) auto
    qed
    moreover from False have "resolve_loop w n (d # ds) = resolve_loop w n ds"
      by (simp add: doc_matches_def)
    ultimately show ?thesis using Cons by simp
  qed
qed

text \<open>
  C7. Whatever documents the listing returns, \<open>resolve_doc_id\<close> returns the id of the
  first listed document whose trimmed, lowercased name equals the trimmed, lowercased
  configured name: the document at the least index \<open>k\<close> that matches. It returns
  \<open>None\<close> exactly when no listed document matches. Trimming is \<open>strip\<close>, lowercasing
  is \<^verbatim>\<open>str.lower\<close> as the interpreter has it, whatever its tables are.
\<close>

theorem resolve_doc_id_first_match:
  assumes "docs_api w = Inr ds"
  shows "\<exists>r. fst (resolve_doc_id w n s) = Inr r
           \<and> (r = None \<longleftrightarrow> \<not> list_ex (doc_matches w n) ds)
           \<and> (\<forall>i. r = Some i \<longleftrightarrow>
                 (\<exists>k < length ds. doc_matches w n (ds ! k)
                    \<and> \<not> list_ex (doc_matches w n) (take k ds)
                    \<and> i = doc_item_id (ds ! k)))"
  using assms
  by (simp add: resolve_doc_id_def get_all_docs_def request_def resolve_loop_None
      resolve_loop_Some)

text \<open>
  In the example the configured name matches the second and the third document; the
  second is listed in another case and between a no-break space and an em space. Its id
  is returned, and a name that matches nothing gives \<open>None\<close>.
\<close>

theorem resolve_doc_id_first_match_witness:
  "docs_api demo_world = Inr demo_docs
   \<and> fst (resolve_doc_id demo_world configured_doc_name init_state) = Inr (Some ''d1'')
   \<and> doc_matches demo_world configured_doc_name (demo_docs ! 1)
   \<and> doc_matches demo_world configured_doc_name (demo_docs ! 2)
   \<and> \<not> list_ex (doc_matches demo_world configured_doc_name) (take 1 demo_docs)
   \<and> fst (resolve_doc_id demo_world ''Elsewhere'' init_state) = Inr None"
proof -
  have h: "docs_api demo_world = Inr demo_docs"
    by (simp add: demo_world_def)
  have m: "doc_matches demo_world configured_doc_name (demo_docs ! 1)"
    "doc_matches demo_world configured_doc_name (demo_docs ! 2)"
    "\<not> list_ex (doc_matches demo_world configured_doc_name) (take 1 demo_docs)"
    "\<not> list_ex (doc_matches demo_world ''Elsewhere'') demo_docs"
    "doc_item_id (demo_docs ! 1) = ''d1''" "1 < length demo_docs"
    by code_simp+
  from resolve_doc_id_first_match [OF h, of configured_doc_name init_state] m
  have "fst (resolve_doc_id demo_world configured_doc_name init_state) = Inr (Some ''d1'')"
    by metis
  moreover from resolve_doc_id_first_match [OF h, of "''Elsewhere''" init_state] m(4)
  have "fst (resolve_doc_id demo_world ''Elsewhere'' init_state) = Inr None"
    by metis
  ultimately show ?thesis using h m by blast
qed

section \<open>The formatter's cache\<close>

text \<open>
  C10. Whenever the formatted-text cache is set, \<open>format_data_for_gemini\<close> returns the
  cached string whatever list it is given, and changes nothing; so after a first call has
  built the text for one list, a call with any other list still returns that text.
\<close>

theorem format_returns_cached:
  "(formatted_data_cache s = Some t \<longrightarrow>
      format_data_for_gemini d1 s = (t, s) \<and> format_data_for_gemini d2 s = (t, s))
   \<and> fst (format_data_for_gemini d2 (snd (format_data_for_gemini d1 s)))
       = fst (format_data_for_gemini d1 s)"
  by (simp add: format_data_for_gemini_def Let_def split: option.splits)

theorem format_returns_cached_witness:
  "formatted_data_cache (init_state\<lparr>formatted_data_cache := Some ''old''\<rparr>) = Some ''old''
   \<and> format_data_for_gemini [] (init_state\<lparr>formatted_data_cache := Some ''old''\<rparr>)
       = (''old'', init_state\<lparr>formatted_data_cache := Some ''old''\<rparr>)
   \<and> format_data_for_gemini demo_data (init_state\<lparr>formatted_data_cache := Some ''old''\<rparr>)
       = (''old'', init_state\<lparr>formatted_data_cache := Some ''old''\<rparr>)
   \<and> fst (format_data_for_gemini demo_data (snd (format_data_for_gemini [] init_state)))
       = ''CODA DOCUMENT DATA:\<newline>\<newline>''"
proof -
  have h: "formatted_data_cache (init_state\<lparr>formatted_data_cache := Some ''old''\<rparr>) = Some ''old''"
    by simp
  have e: "fst (format_data_for_gemini [] init_state) = ''CODA DOCUMENT DATA:\<newline>\<newline>''"
    by code_simp
  show ?thesis
    using format_returns_cached
      [of "init_state\<lparr>formatted_data_cache := Some ''old''\<rparr>" "''old''" "[]" demo_data]
      format_returns_cached [of init_state "''x''" "[]" demo_data] h e
    by simp
qed

section \<open>What the aggregator and the formatter do to the state\<close>

lemma request_snd: "snd (request c r s) = s\<lparr>calls := calls s @ [c]\<rparr>"
  by (simp add: request_def)

lemma request_fst: "fst (request c r s) = r"
  by (simp add: request_def)

lemma table_body_frame: "\<exists>cs. snd (table_body w d t s) = s\<lparr>calls := cs\<rparr>"
  by (auto simp: table_body_def get_column_map_def get_rows_def request_def
      split: sum.splits list.splits prod.splits)

lemma tables_loop_frame: "\<exists>cs. snd (tables_loop w d ts acc s) = s\<lparr>calls := cs\<rparr>"
proof (induction ts arbitrary: acc s)
  case Nil
  have "s = s\<lparr>calls := calls s\<rparr>" by simp
  then show ?case by (metis tables_loop.simps(1) snd_conv)
next
  case (Cons t ts)
  obtain r s1 where b: "table_body w d t s = (r, s1)" by (cases "table_body w d t s")
  from table_body_frame [of w d t s] b obtain cs where s1: "s1 = s\<lparr>calls := cs\<rparr>" by auto
  obtain acc' where step: "tables_loop w d (t # ts) acc s = tables_loop w d ts acc' s1"
    using b by (cases r; cases "projr r") (auto split: sum.splits option.splits)
  from Cons [of acc' s1] obtain cs' where "snd (tables_loop w d ts acc' s1) = s1\<lparr>calls := cs'\<rparr>"
    by blast
  with step s1 show ?case by auto
qed

lemma get_tables_frame: "\<exists>cs. snd (get_tables_created_on_page w d p s) = s\<lparr>calls := cs\<rparr>"
  by (auto simp: get_tables_created_on_page_def request_def split: sum.splits)

lemma pages_loop_frame: "\<exists>cs. snd (pages_loop w d ps acc s) = s\<lparr>calls := cs\<rparr>"
proof (induction ps arbitrary: acc s)
  case Nil
  have "s = s\<lparr>calls := calls s\<rparr>" by simp
  then show ?case by (metis pages_loop.simps(1) snd_conv)
next
  case (Cons p ps)
  obtain r s1 where g: "get_tables_created_on_page w d (page_item_id p) s = (r, s1)"
    by (cases "get_tables_created_on_page w d (page_item_id p) s")
  from get_tables_frame [of w d "page_item_id p" s] g obtain cs where s1: "s1 = s\<lparr>calls := cs\<rparr>"
    by auto
  show ?case
  proof (cases r)
    case (Inl e)
    with g s1 show ?thesis by auto
  next
    case (Inr tbls)
    obtain pt s2 where l: "tables_loop w d tbls [] s1 = (pt, s2)"
      by (cases "tables_loop w d tbls [] s1")
    from tables_loop_frame [of w d tbls "[]" s1] l obtain cs2 where s2: "s2 = s1\<lparr>calls := cs2\<rparr>"
      by auto
    obtain acc' where step: "pages_loop w d (p # ps) acc s = pages_loop w d ps acc' s2"
      using g Inr l by auto
    from Cons [of acc' s2] obtain cs' where "snd (pages_loop w d ps acc' s2) = s2\<lparr>calls := cs'\<rparr>"
      by blast
    with step s1 s2 show ?thesis by auto
  qed
qed

lemma get_all_coda_data_cached:
  "coda_data_cache s = Some d \<Longrightarrow> get_all_coda_data w i s = (Inr d, s)"
  by (simp add: get_all_coda_data_def)

lemma get_all_coda_data_Inr:
  assumes "fst (get_all_coda_data w i s) = Inr d"
  shows "coda_data_cache (snd (get_all_coda_data w i s)) = Some d
         \<and> formatted_data_cache (snd (get_all_coda_data w i s)) = formatted_data_cache s"
proof (cases "coda_data_cache s")
  case (Some c)
  with assms show ?thesis by (simp add: get_all_coda_data_def)
next
  case None
  obtain r s1 where g: "get_pages w i s = (r, s1)" by (cases "get_pages w i s")
  then have s1: "s1 = s\<lparr>calls := calls s @ [ListPages i]\<rparr>"
    by (auto simp: get_pages_def request_def)
  show ?thesis
  proof (cases r)
    case (Inl e)
    with assms None g show ?thesis by (simp add: get_all_coda_data_def)
  next
    case (Inr ps)
    obtain r2 s2 where l: "pages_loop w i ps [] s1 = (r2, s2)" by (cases "pages_loop w i ps [] s1")
    from pages_loop_frame [of w i ps "[]" s1] l obtain cs where s2: "s2 = s1\<lparr>calls := cs\<rparr>" by auto
    from assms None g Inr l have "r2 = Inr d"
      by (auto simp: get_all_coda_data_def split: sum.splits)
    with None g Inr l s1 s2 show ?thesis by (simp add: get_all_coda_data_def)
  qed
qed

lemma get_all_coda_data_Inl:
  assumes "fst (get_all_coda_data w i s) = Inl e"
  shows "\<exists>cs. snd (get_all_coda_data w i s) = s\<lparr>calls := cs\<rparr>"
proof (cases "coda_data_cache s")
  case (Some c)
  with assms show ?thesis by (simp add: get_all_coda_data_def)
next
  case None
  obtain r s1 where g: "get_pages w i s = (r, s1)" by (cases "get_pages w i s")
  then have s1: "s1 = s\<lparr>calls := calls s @ [ListPages i]\<rparr>"
    by (auto simp: get_pages_def request_def)
  show ?thesis
  proof (cases r)
    case (Inl e)
    with assms None g s1 show ?thesis by (auto simp add: get_all_coda_data_def)
  next
    case (Inr ps)
    obtain r2 s2 where l: "pages_loop w i ps [] s1 = (r2, s2)" by (cases "pages_loop w i ps [] s1")
    from pages_loop_frame [of w i ps "[]" s1] l obtain cs where s2: "s2 = s1\<lparr>calls := cs\<rparr>" by auto
    from assms None g Inr l have "r2 = Inl e"
      by (auto simp: get_all_coda_data_def split: sum.splits)
    with None g Inr l s1 s2 show ?thesis by (auto simp add: get_all_coda_data_def)
  qed
qed

lemma format_sets: "formatted_data_cache (snd (format_data_for_gemini d s)) = Some (fst (format_data_for_gemini d s))
   \<and> coda_data_cache (snd (format_data_for_gemini d s)) = coda_data_cache s"
  by (simp add: format_data_for_gemini_def Let_def split: option.splits)

lemma build_context_cached:
  "coda_data_cache s = Some d \<Longrightarrow> formatted_data_cache s = Some t \<Longrightarrow>
   build_context w i s = (Inr (d, t), s)"
  by (simp add: build_context_def get_all_coda_data_def format_data_for_gemini_def)

lemma build_context_Inr:
  assumes "fst (build_context w i s) = Inr (d, t)"
  shows "coda_data_cache (snd (build_context w i s)) = Some d
         \<and> formatted_data_cache (snd (build_context w i s)) = Some t"
proof -
  obtain r s1 where g: "get_all_coda_data w i s = (r, s1)" by (cases "get_all_coda_data w i s")
  with assms obtain d' where r: "r = Inr d'" by (cases r) (auto simp: build_context_def)
  from get_all_coda_data_Inr [of w i s d'] g r have c: "coda_data_cache s1 = Some d'" by simp
  obtain t' s2 where f: "format_data_for_gemini d' s1 = (t', s2)"
    by (cases "format_data_for_gemini d' s1")
  from assms g r f have "d' = d" "t' = t" by (auto simp: build_context_def)
  moreover from format_sets [of d' s1] f c
  have "formatted_data_cache s2 = Some t'" "coda_data_cache s2 = Some d'" by auto
  ultimately show ?thesis using g r f by (simp add: build_context_def)
qed

lemma resolve_doc_id_caches:
  "resolve_doc_id w n s = (r, s1) \<Longrightarrow>
   coda_data_cache s1 = coda_data_cache s \<and> formatted_data_cache s1 = formatted_data_cache s"
  by (auto simp: resolve_doc_id_def get_all_docs_def request_def split: sum.splits)

lemma get_all_coda_data_caches:
  assumes "get_all_coda_data w i s = (r, s1)"
  shows "formatted_data_cache s1 = formatted_data_cache s
         \<and> (case r of Inr d \<Rightarrow> coda_data_cache s1 = Some d | Inl e \<Rightarrow> coda_data_cache s1 = coda_data_cache s)"
proof (cases r)
  case (Inl e)
  with assms get_all_coda_data_Inl [of w i s e] show ?thesis by auto
next
  case (Inr d)
  with assms get_all_coda_data_Inr [of w i s d] show ?thesis by auto
qed

lemma build_context_caches:
  assumes "build_context w i s = (r, s1)"
  shows "case r of Inr (d, t) \<Rightarrow> coda_data_cache s1 = Some d \<and> formatted_data_cache s1 = Some t
         | Inl e \<Rightarrow> coda_data_cache s1 = coda_data_cache s \<and> formatted_data_cache s1 = formatted_data_cache s"
proof (cases r)
  case (Inl e)
  obtain r0 s0 where g: "get_all_coda_data w i s = (r0, s0)" by (cases "get_all_coda_data w i s")
  with assms Inl have "r0 = Inl e" "s0 = s1"
    by (auto simp: build_context_def split: sum.splits prod.splits)
  with get_all_coda_data_caches [OF g] Inl show ?thesis by simp
next
  case (Inr x)
  obtain d t where x: "x = (d, t)" by (cases x)
  with assms Inr build_context_Inr [of w i s d t] show ?thesis by simp
qed

lemma ask_gemini_caches:
  "ask_gemini_about_data w c q s = (a, s1) \<Longrightarrow>
   coda_data_cache s1 = coda_data_cache s \<and> formatted_data_cache s1 = formatted_data_cache s"
  by (auto simp: ask_gemini_about_data_def request_def split: sum.splits)

lemma ask_body_inv: "cache_inv s \<Longrightarrow> cache_inv (snd (ask_body w q s))"
  unfolding ask_body_def cache_inv_def
  by (auto split: prod.splits sum.splits option.splits
      dest!: resolve_doc_id_caches build_context_caches ask_gemini_caches)

lemma ask_question_inv: "cache_inv s \<Longrightarrow> cache_inv (snd (ask_question w q s))"
  using ask_body_inv [of s w q]
  by (auto simp: ask_question_def split: prod.splits sum.splits)

lemma cliq_body_inv: "cache_inv s \<Longrightarrow> cache_inv (snd (cliq_body w q s))"
  unfolding cliq_body_def cache_inv_def
  by (auto split: prod.splits sum.splits option.splits
      dest!: resolve_doc_id_caches build_context_caches ask_gemini_caches)

lemma cliq_webhook_inv: "cache_inv s \<Longrightarrow> cache_inv (snd (cliq_webhook w q s))"
  using cliq_body_inv [of s w q]
  by (auto simp: cliq_webhook_def split: prod.splits sum.splits)

lemma refresh_cache_inv: "cache_inv (snd (refresh_cache w s))"
  unfolding refresh_cache_def cache_inv_def
  by (auto split: prod.splits sum.splits option.splits
      dest!: resolve_doc_id_caches get_all_coda_data_caches)

lemma summary_body_inv: "cache_inv s \<Longrightarrow> cache_inv (snd (summary_body w s))"
  unfolding summary_body_def cache_inv_def
  by (auto split: prod.splits sum.splits option.splits
      dest!: resolve_doc_id_caches get_all_coda_data_caches)

lemma get_data_summary_inv: "cache_inv s \<Longrightarrow> cache_inv (snd (get_data_summary w s))"
  using summary_body_inv [of s w]
  by (auto simp: get_data_summary_def split: prod.splits sum.splits)

lemma handle_inv: "cache_inv s \<Longrightarrow> cache_inv (snd (handle w r s))"
  by (cases r) (simp_all add: root_def health_check_def ask_question_inv cliq_webhook_inv
      refresh_cache_inv get_data_summary_inv)

lemma run_inv: "cache_inv s \<Longrightarrow> cache_inv (run ops s)"
  by (induction ops arbitrary: s) (auto simp: handle_inv)

section \<open>What the aggregator returns\<close>

lemma filter_rows_eq: "filter_rows rws acc = acc @ filter has_data rws"
  by (induction rws arbitrary: acc) auto

lemma table_body_fst:
  "fst (table_body w d t s) =
     (case columns_api w d (table_item_id t) of
        Inl e \<Rightarrow> Inl e
      | Inr cols \<Rightarrow>
          (case rows_api w d (table_item_id t) of
             Inl e \<Rightarrow> Inl e
           | Inr items \<Rightarrow>
               Inr (if kept_rows w d t = [] then None else Some (surviving_table w d t))))"
  by (auto simp: table_body_def get_column_map_def get_rows_def request_def kept_rows_def
      surviving_table_def filter_rows_eq split: sum.splits list.splits)

lemma table_body_cases:
  "(kept_rows w d t = [] \<and> (\<exists>e. fst (table_body w d t s) = Inl e \<or> fst (table_body w d t s) = Inr None))
   \<or> (kept_rows w d t \<noteq> [] \<and> fst (table_body w d t s) = Inr (Some (surviving_table w d t)))"
  by (auto simp: table_body_fst kept_rows_def split: sum.splits)

lemma tables_loop_fst:
  "fst (tables_loop w d tbls acc s) =
     acc @ map (surviving_table w d) (filter (\<lambda>t. kept_rows w d t \<noteq> []) tbls)"
proof (induction tbls arbitrary: acc s)
  case Nil
  then show ?case by simp
next
  case (Cons t tbls)
  obtain r s1 where b: "table_body w d t s = (r, s1)" by (cases "table_body w d t s")
  from table_body_cases [of w d t s] b
  consider (skip) "kept_rows w d t = []" "tables_loop w d (t # tbls) acc s = tables_loop w d tbls acc s1"
    | (keep) "kept_rows w d t \<noteq> []"
        "tables_loop w d (t # tbls) acc s = tables_loop w d tbls (acc @ [surviving_table w d t]) s1"
    by auto
  then show ?case
    by cases (simp_all add: Cons)
qed

lemma get_tables_fst:
  "fst (get_tables_created_on_page w d pid s) =
     (case tables_api w d of Inl e \<Rightarrow> Inl e
      | Inr ts \<Rightarrow> Inr (filter (\<lambda>t. table_item_parent t = Some pid) ts))"
  by (simp add: get_tables_created_on_page_def request_def split: sum.splits)

lemma pages_loop_fst_ok:
  assumes "tables_api w d = Inr ts"
  shows "fst (pages_loop w d ps acc s) = Inr (acc @ surviving_pages w d ps ts)"
proof (induction ps arbitrary: acc s)
  case Nil
  then show ?case by (simp add: surviving_pages_def)
next
  case (Cons p ps)
  obtain r s1 where g: "get_tables_created_on_page w d (page_item_id p) s = (r, s1)"
    by (cases "get_tables_created_on_page w d (page_item_id p) s")
  with get_tables_fst [of w d "page_item_id p" s] assms
  have r: "r = Inr (filter (\<lambda>t. table_item_parent t = Some (page_item_id p)) ts)" by simp
  obtain pt s2 where l: "tables_loop w d (filter (\<lambda>t. table_item_parent t = Some (page_item_id p)) ts) [] s1 = (pt, s2)"
    by (cases "tables_loop w d (filter (\<lambda>t. table_item_parent t = Some (page_item_id p)) ts) [] s1")
  with tables_loop_fst [of w d "filter (\<lambda>t. table_item_parent t = Some (page_item_id p)) ts" "[]" s1]
  have pt: "pt = surviving_tables w d ts p" by (simp add: surviving_tables_def)
  have step: "pages_loop w d (p # ps) acc s =
      pages_loop w d ps (if pt \<noteq> [] then acc @ [\<lparr>page_name = page_item_name p, tables = pt\<rparr>] else acc) s2"
    using g r l by simp
  show ?case
    unfolding step Cons pt by (simp add: surviving_pages_def)
qed

lemma pages_loop_fst_fault:
  assumes "tables_api w d = Inl e" "ps \<noteq> []"
  shows "fst (pages_loop w d ps acc s) = Inl e"
proof -
  from assms(2) obtain p ps' where ps: "ps = p # ps'" by (cases ps) auto
  obtain r s1 where g: "get_tables_created_on_page w d (page_item_id p) s = (r, s1)"
    by (cases "get_tables_created_on_page w d (page_item_id p) s")
  with get_tables_fst [of w d "page_item_id p" s] assms(1) have "r = Inl e" by simp
  with g ps show ?thesis by simp
qed

lemma get_all_coda_data_fst:
  assumes "coda_data_cache s = None"
  shows "fst (get_all_coda_data w d s) =
     (case pages_api w d of
        Inl e \<Rightarrow> Inl e
      | Inr ps \<Rightarrow>
          (if ps = [] then Inr []
           else (case tables_api w d of Inl e \<Rightarrow> Inl e | Inr ts \<Rightarrow> Inr (surviving_pages w d ps ts))))"
proof (cases "pages_api w d")
  case (Inl e)
  with assms show ?thesis by (simp add: get_all_coda_data_def get_pages_def request_def)
next
  case (Inr ps)
  let ?s1 = "s\<lparr>calls := calls s @ [ListPages d]\<rparr>"
  have g: "get_pages w d s = (Inr ps, ?s1)" using Inr by (simp add: get_pages_def request_def)
  have u: "fst (get_all_coda_data w d s) = fst (pages_loop w d ps [] ?s1)"
    using assms g by (simp add: get_all_coda_data_def split: prod.splits sum.splits)
  show ?thesis
  proof (cases "ps = []")
    case True
    with u Inr show ?thesis by simp
  next
    case False
    show ?thesis
    proof (cases "tables_api w d")
      case (Inl e)
      with pages_loop_fst_fault [OF Inl False] u Inr False show ?thesis by simp
    next
      case (Inr ts)
      with pages_loop_fst_ok [OF Inr] u \<open>pages_api w d = Inr ps\<close> False show ?thesis by simp
    qed
  qed
qed


section \<open>The emptiness filter\<close>

lemma truthy_not_listed: "(truthy v \<and> \<not> py_in v empty_values) \<longleftrightarrow> \<not> no_data_value v"
  by (cases v) (auto simp: py_in_def empty_values_def)

text \<open>
  What the test of the code amounts to: a row counts when one of its values is true in
  Python's sense and is not the string \<^verbatim>\<open>"False"\<close>.
\<close>

lemma has_data_iff: "has_data r \<longleftrightarrow> list_ex (\<lambda>v. \<not> no_data_value v) (map snd r)"
  unfolding has_data_def list_ex_iff
  using truthy_not_listed by auto

text \<open>
  C1. The generator of \<open>has_data\<close> yields the values outside the list, and \<^verbatim>\<open>any\<close> asks
  for one of them to be true. So a row whose only values outside the list are false in
  Python's sense is dropped: the row \<^verbatim>\<open>{Qty: 0}\<close> and the row \<^verbatim>\<open>{Tags: []}\<close> each
  have a value that is none of \<^verbatim>\<open>None\<close>, \<^verbatim>\<open>""\<close>, \<^verbatim>\<open>False\<close> and \<^verbatim>\<open>"False"\<close>, and
  neither is kept.
\<close>

theorem falsy_rows_dropped:
  "list_ex (\<lambda>v. v \<notin> set empty_values) (map snd [(''Qty'', PInt 0)])
   \<and> filter_rows [[(''Qty'', PInt 0)]] [] = []
   \<and> list_ex (\<lambda>v. v \<notin> set empty_values) (map snd [(''Tags'', PList [])])
   \<and> filter_rows [[(''Tags'', PList [])]] [] = []"
  by code_simp

section \<open>The two cache fields\<close>

text \<open>
  C2, as the code has it. After any sequence of requests, a cached formatted text comes
  with a cached aggregated list; every handler keeps it so; and a context build that
  returns leaves both fields set. (The list alone may be set: see the counterexample.)
\<close>

theorem cache_text_implies_list:
  "cache_inv (run ops init_state)
   \<and> (cache_inv s \<longrightarrow> cache_inv (snd (handle w r s)))
   \<and> (fst (build_context w i s) = Inr (d, t) \<longrightarrow>
        coda_data_cache (snd (build_context w i s)) = Some d
        \<and> formatted_data_cache (snd (build_context w i s)) = Some t)"
proof -
  have "cache_inv init_state" by (simp add: cache_inv_def init_state_def)
  then show ?thesis using run_inv handle_inv build_context_Inr by blast
qed

theorem cache_text_implies_list_witness:
  "cache_inv (run [(demo_world, PostAsk ''How many?''), (demo_world, GetDataSummary)] init_state)
   \<and> cache_inv init_state
   \<and> cache_inv (snd (handle demo_world PostRefreshCache init_state))
   \<and> fst (build_context demo_world ''d1'' init_state) = Inr (demo_data, demo_text)
   \<and> coda_data_cache (snd (build_context demo_world ''d1'' init_state)) = Some demo_data
   \<and> formatted_data_cache (snd (build_context demo_world ''d1'' init_state)) = Some demo_text"
proof -
  have e: "cache_inv init_state"
    "fst (build_context demo_world ''d1'' init_state) = Inr (demo_data, demo_text)"
    by code_simp+
  show ?thesis
    using cache_text_implies_list
      [of "[(demo_world, PostAsk ''How many?''), (demo_world, GetDataSummary)]" init_state
          demo_world PostRefreshCache "''d1''" demo_data demo_text] e
    by simp
qed

text \<open>
  After a data summary, and after a refresh that follows a question, the aggregated list
  is set and the formatted text is not.
\<close>

theorem one_cache_field_set_counterexample:
  "coda_data_cache (run [(demo_world, GetDataSummary)] init_state) = Some demo_data
   \<and> formatted_data_cache (run [(demo_world, GetDataSummary)] init_state) = None
   \<and> coda_data_cache
        (run [(demo_world, PostAsk ''How many?''), (demo_world, PostRefreshCache)] init_state)
       = Some demo_data
   \<and> formatted_data_cache
        (run [(demo_world, PostAsk ''How many?''), (demo_world, PostRefreshCache)] init_state)
       = None"
  by code_simp

section \<open>Refreshing the cache\<close>




section \<open>The shape of the aggregation\<close>





section \<open>Faults during the aggregation\<close>

text \<open>
  C4, as the code has it. A table whose columns or rows cannot be fetched is left out,
  and the tables before and after it are collected as they are without it. An
  aggregation pass faults exactly when listing the pages faults, or when there is a page
  and listing the tables faults.
\<close>

theorem table_fault_skips_table_only:
  "((\<exists>e. columns_api w d (table_item_id t) = Inl e) \<or> (\<exists>e. rows_api w d (table_item_id t) = Inl e)
      \<longrightarrow> fst (tables_loop w d (ts1 @ t # ts2) acc s) = fst (tables_loop w d (ts1 @ ts2) acc s'))
   \<and> (coda_data_cache s = None \<longrightarrow>
        ((\<exists>e. fst (get_all_coda_data w d s) = Inl e) \<longleftrightarrow>
           ((\<exists>e. pages_api w d = Inl e)
            \<or> (\<exists>ps e. pages_api w d = Inr ps \<and> ps \<noteq> [] \<and> tables_api w d = Inl e))))"
proof (intro conjI impI)
  assume "(\<exists>e. columns_api w d (table_item_id t) = Inl e) \<or> (\<exists>e. rows_api w d (table_item_id t) = Inl e)"
  then have "kept_rows w d t = []" by (auto simp: kept_rows_def split: sum.splits)
  then show "fst (tables_loop w d (ts1 @ t # ts2) acc s) = fst (tables_loop w d (ts1 @ ts2) acc s')"
    by (simp add: tables_loop_fst)
next
  assume a: "coda_data_cache s = None"
  show "(\<exists>e. fst (get_all_coda_data w d s) = Inl e) \<longleftrightarrow>
           ((\<exists>e. pages_api w d = Inl e)
            \<or> (\<exists>ps e. pages_api w d = Inr ps \<and> ps \<noteq> [] \<and> tables_api w d = Inl e))"
    unfolding get_all_coda_data_fst [OF a]
    by (auto split: sum.splits)
qed

theorem table_fault_skips_table_only_witness:
  "columns_api demo_world ''d1'' (table_item_id (demo_tables ! 2)) = Inl ''timeout''
   \<and> fst (tables_loop demo_world ''d1'' ([demo_tables ! 0] @ demo_tables ! 2 # [demo_tables ! 1])
            [] init_state)
       = fst (tables_loop demo_world ''d1'' ([demo_tables ! 0] @ [demo_tables ! 1]) [] init_state)
   \<and> fst (tables_loop demo_world ''d1'' ([demo_tables ! 0] @ [demo_tables ! 1]) [] init_state)
       = tables (demo_data ! 0)
   \<and> coda_data_cache init_state = None
   \<and> pages_api broken_world ''d1'' = Inr demo_pages
   \<and> tables_api broken_world ''d1'' = Inl ''boom''
   \<and> (\<exists>e. fst (get_all_coda_data broken_world ''d1'' init_state) = Inl e)"
proof -
  have e: "columns_api demo_world ''d1'' (table_item_id (demo_tables ! 2)) = Inl ''timeout''"
    "fst (tables_loop demo_world ''d1'' ([demo_tables ! 0] @ [demo_tables ! 1]) [] init_state)
       = tables (demo_data ! 0)"
    "coda_data_cache init_state = None"
    "pages_api broken_world ''d1'' = Inr demo_pages"
    "tables_api broken_world ''d1'' = Inl ''boom''"
    "demo_pages \<noteq> []"
    by code_simp+
  from table_fault_skips_table_only
         [of demo_world "''d1''" "demo_tables ! 2" "[demo_tables ! 0]" "[demo_tables ! 1]" "[]"
             init_state init_state] e(1)
  have 1: "fst (tables_loop demo_world ''d1'' ([demo_tables ! 0] @ demo_tables ! 2 # [demo_tables ! 1])
            [] init_state)
       = fst (tables_loop demo_world ''d1'' ([demo_tables ! 0] @ [demo_tables ! 1]) [] init_state)"
    by blast
  from table_fault_skips_table_only
         [of broken_world "''d1''" "demo_tables ! 2" "[]" "[]" "[]" init_state init_state] e
  have 2: "\<exists>e. fst (get_all_coda_data broken_world ''d1'' init_state) = Inl e"
    by blast
  from 1 2 e show ?thesis by blast
qed

text \<open>
  The documents and the pages are listed without a fault; listing the tables faults, and
  the whole pass faults with it.
\<close>

theorem table_listing_fault_counterexample:
  "docs_api broken_world = Inr demo_docs
   \<and> fst (resolve_doc_id broken_world configured_doc_name init_state) = Inr (Some ''d1'')
   \<and> pages_api broken_world ''d1'' = Inr demo_pages
   \<and> fst (get_all_coda_data broken_world ''d1'' init_state) = Inl ''boom''"
  by code_simp

section \<open>Building the context from the cache\<close>

text \<open>
  C5. When both cache fields are set, building the context returns the cached list and
  the cached text and leaves the state as it is: the cache fields are unchanged and no
  request is added to the log. So after a context build that returned, a second one,
  against any world, returns the same list and text and issues no request.
\<close>

theorem build_context_uses_cache:
  "(coda_data_cache s = Some d \<and> formatted_data_cache s = Some t \<longrightarrow>
      build_context w i s = (Inr (d, t), s))
   \<and> (fst (build_context w i s) = Inr (d', t') \<longrightarrow>
        build_context w' i' (snd (build_context w i s))
          = (Inr (d', t'), snd (build_context w i s)))"
  using build_context_cached build_context_Inr by blast

theorem build_context_uses_cache_witness:
  "coda_data_cache \<lparr>coda_data_cache = Some [], formatted_data_cache = Some ''old'', calls = []\<rparr>
     = Some []
   \<and> build_context demo_world ''d1''
        \<lparr>coda_data_cache = Some [], formatted_data_cache = Some ''old'', calls = []\<rparr>
       = (Inr ([], ''old''),
          \<lparr>coda_data_cache = Some [], formatted_data_cache = Some ''old'', calls = []\<rparr>)
   \<and> fst (build_context demo_world ''d1'' init_state) = Inr (demo_data, demo_text)
   \<and> calls (snd (build_context demo_world ''d1'' init_state))
       = [ListPages ''d1'', ListTables ''d1'', ListColumns ''d1'' ''t1'', ListRows ''d1'' ''t1'',
          ListColumns ''d1'' ''t2'', ListRows ''d1'' ''t2'', ListTables ''d1'',
          ListColumns ''d1'' ''t3'']
   \<and> build_context broken_world ''d1'' (snd (build_context demo_world ''d1'' init_state))
       = (Inr (demo_data, demo_text), snd (build_context demo_world ''d1'' init_state))"
proof -
  have e: "fst (build_context demo_world ''d1'' init_state) = Inr (demo_data, demo_text)"
    "calls (snd (build_context demo_world ''d1'' init_state))
       = [ListPages ''d1'', ListTables ''d1'', ListColumns ''d1'' ''t1'', ListRows ''d1'' ''t1'',
          ListColumns ''d1'' ''t2'', ListRows ''d1'' ''t2'', ListTables ''d1'',
          ListColumns ''d1'' ''t3'']"
    by code_simp+
  show ?thesis
    using build_context_uses_cache
            [of "\<lparr>coda_data_cache = Some [], formatted_data_cache = Some ''old'', calls = []\<rparr>"
                "[]" "''old''" demo_world "''d1''" "[]" "''old''" demo_world "''d1''"]
          build_context_uses_cache
            [of init_state "[]" "''old''" demo_world "''d1''" demo_data demo_text broken_world
                "''d1''"]
          e
    by simp
qed

section \<open>The chat webhook\<close>

lemma resolve_doc_id_eq:
  "resolve_doc_id w n s =
     (case docs_api w of Inl e \<Rightarrow> Inl e | Inr ds \<Rightarrow> Inr (resolve_loop w n ds),
      s\<lparr>calls := calls s @ [ListDocs]\<rparr>)"
  by (simp add: resolve_doc_id_def get_all_docs_def request_def split: sum.splits)

lemma cliq_webhook_payload: "\<exists>txt c. fst (cliq_webhook w q s) = Inr (CliqPayload txt c)"
  by (auto simp: cliq_webhook_def cliq_body_def split: prod.splits sum.splits option.splits)

text \<open>
  C8, as the code has it. For an empty or blank text the webhook returns the usage hint
  and leaves the state as it is, so no request is issued. It never raises: it always
  returns a payload of a text and a colour. A fault of the document listing, a document
  that is not found and a fault while the context is built give a payload in the error
  colour \<^verbatim>\<open>#FF0000\<close>. A fault of the model call is caught by the answer engine: it
  comes back as the answer, in a payload of the success colour \<^verbatim>\<open>#4CAF50\<close>.
\<close>

theorem cliq_webhook_soft_payload:
  "(strip q = [] \<longrightarrow> cliq_webhook w q s = (Inr usage_hint, s))
   \<and> (\<exists>txt c. fst (cliq_webhook w q s) = Inr (CliqPayload txt c))
   \<and> (strip q \<noteq> [] \<and> docs_api w = Inl e \<longrightarrow>
        fst (cliq_webhook w q s) =
          Inr (CliqPayload (cross_mark @ '' Error processing your question: '' @ e) ''#FF0000''))
   \<and> (strip q \<noteq> [] \<and> docs_api w = Inr ds
        \<and> (resolve_loop w configured_doc_name ds = None
             \<or> resolve_loop w configured_doc_name ds = Some []) \<longrightarrow>
        fst (cliq_webhook w q s) =
          Inr (CliqPayload
                 (cross_mark @ '' Coda document not found. Please check the configuration.'')
                 ''#FF0000''))
   \<and> (strip q \<noteq> [] \<and> docs_api w = Inr ds \<and> resolve_loop w configured_doc_name ds = Some i
        \<and> i \<noteq> [] \<and> fst (build_context w i (s\<lparr>calls := calls s @ [ListDocs]\<rparr>)) = Inl e \<longrightarrow>
        fst (cliq_webhook w q s) =
          Inr (CliqPayload (cross_mark @ '' Error processing your question: '' @ e) ''#FF0000''))
   \<and> (strip q \<noteq> [] \<and> docs_api w = Inr ds \<and> resolve_loop w configured_doc_name ds = Some i
        \<and> i \<noteq> []
        \<and> fst (build_context w i (s\<lparr>calls := calls s @ [ListDocs]\<rparr>)) = Inr (coda_data, formatted)
        \<and> gemini_api w (prompt_of formatted q) = Inl e \<longrightarrow>
        fst (cliq_webhook w q s) =
          Inr (CliqPayload
                 (robot_mark @ '' **Coda AI Assistant**\<newline>\<newline>**Question:** '' @ q
                    @ ''\<newline>\<newline>**Answer:** '' @ ''Error communicating with Gemini AI: '' @ e)
                 ''#4CAF50''))"
proof (intro conjI impI)
  show "\<exists>txt c. fst (cliq_webhook w q s) = Inr (CliqPayload txt c)"
    by (rule cliq_webhook_payload)
qed (auto simp: cliq_webhook_def cliq_body_def usage_hint_def resolve_doc_id_eq
       ask_gemini_about_data_def request_def split: prod.splits sum.splits)

theorem cliq_webhook_soft_payload_witness:
  "strip ''  '' = []
   \<and> cliq_webhook demo_world ''  '' init_state = (Inr usage_hint, init_state)
   \<and> docs_api down_world = Inl ''unreachable''
   \<and> fst (cliq_webhook down_world ''How many?'' init_state) =
       Inr (CliqPayload (cross_mark @ '' Error processing your question: '' @ ''unreachable'')
              ''#FF0000'')
   \<and> resolve_loop lost_world configured_doc_name [\<lparr>doc_item_id = ''d0'', doc_item_name = ''Other''\<rparr>] = None
   \<and> fst (cliq_webhook lost_world ''How many?'' init_state) =
       Inr (CliqPayload
              (cross_mark @ '' Coda document not found. Please check the configuration.'')
              ''#FF0000'')
   \<and> fst (build_context broken_world ''d1'' (init_state\<lparr>calls := calls init_state @ [ListDocs]\<rparr>))
       = Inl ''boom''
   \<and> fst (cliq_webhook broken_world ''How many?'' init_state) =
       Inr (CliqPayload (cross_mark @ '' Error processing your question: '' @ ''boom'') ''#FF0000'')
   \<and> gemini_api mute_world (prompt_of demo_text ''How many?'') = Inl ''quota exceeded''
   \<and> fst (cliq_webhook mute_world ''How many?'' init_state) =
       Inr (CliqPayload
              (robot_mark @ '' **Coda AI Assistant**\<newline>\<newline>**Question:** '' @ ''How many?''
                 @ ''\<newline>\<newline>**Answer:** '' @ ''Error communicating with Gemini AI: ''
                 @ ''quota exceeded'')
              ''#4CAF50'')"
proof -
  have e: "strip ''  '' = []" "strip ''How many?'' \<noteq> []"
    "docs_api down_world = Inl ''unreachable''"
    "docs_api lost_world = Inr [\<lparr>doc_item_id = ''d0'', doc_item_name = ''Other''\<rparr>]"
    "resolve_loop lost_world configured_doc_name [\<lparr>doc_item_id = ''d0'', doc_item_name = ''Other''\<rparr>] = None"
    "docs_api broken_world = Inr demo_docs" "docs_api mute_world = Inr demo_docs"
    "resolve_loop broken_world configured_doc_name demo_docs = Some ''d1''" "''d1'' \<noteq> []"
    "fst (build_context broken_world ''d1'' (init_state\<lparr>calls := calls init_state @ [ListDocs]\<rparr>))
       = Inl ''boom''"
    "fst (build_context mute_world ''d1'' (init_state\<lparr>calls := calls init_state @ [ListDocs]\<rparr>))
       = Inr (demo_data, demo_text)"
    "gemini_api mute_world (prompt_of demo_text ''How many?'') = Inl ''quota exceeded''"
    by code_simp+
  have m: "resolve_loop mute_world configured_doc_name demo_docs = Some ''d1''"
    by code_simp
  from cliq_webhook_soft_payload [of "''  ''" demo_world init_state] e(1)
  have 1: "cliq_webhook demo_world ''  '' init_state = (Inr usage_hint, init_state)" by blast
  from cliq_webhook_soft_payload [of "''How many?''" down_world init_state "''unreachable''"] e(2,3)
  have 2: "fst (cliq_webhook down_world ''How many?'' init_state) =
       Inr (CliqPayload (cross_mark @ '' Error processing your question: '' @ ''unreachable'')
              ''#FF0000'')" by blast
  from cliq_webhook_soft_payload
         [of "''How many?''" lost_world init_state _ "[\<lparr>doc_item_id = ''d0'', doc_item_name = ''Other''\<rparr>]"]
       e(2,4,5)
  have 3: "fst (cliq_webhook lost_world ''How many?'' init_state) =
       Inr (CliqPayload
              (cross_mark @ '' Coda document not found. Please check the configuration.'')
              ''#FF0000'')" by blast
  from cliq_webhook_soft_payload
         [of "''How many?''" broken_world init_state "''boom''" demo_docs "''d1''"]
       e(2,6,8,9,10)
  have 4: "fst (cliq_webhook broken_world ''How many?'' init_state) =
       Inr (CliqPayload (cross_mark @ '' Error processing your question: '' @ ''boom'') ''#FF0000'')"
    by blast
  from cliq_webhook_soft_payload
         [of "''How many?''" mute_world init_state "''quota exceeded''" demo_docs "''d1''"
             demo_data demo_text]
       e(2,7,9,11,12) m
  have 5: "fst (cliq_webhook mute_world ''How many?'' init_state) =
       Inr (CliqPayload
              (robot_mark @ '' **Coda AI Assistant**\<newline>\<newline>**Question:** '' @ ''How many?''
                 @ ''\<newline>\<newline>**Answer:** '' @ ''Error communicating with Gemini AI: ''
                 @ ''quota exceeded'')
              ''#4CAF50'')" by blast
  from 1 2 3 4 5 e show ?thesis by blast
qed

text \<open>
  The model call faults, and the webhook answers in the success colour.
\<close>

theorem model_fault_green_counterexample:
  "gemini_api mute_world (prompt_of demo_text ''How many?'') = Inl ''quota exceeded''
   \<and> fst (cliq_webhook mute_world ''How many?'' init_state) =
     Inr (CliqPayload
            (robot_mark @ '' **Coda AI Assistant**\<newline>\<newline>**Question:** How many?\<newline>\<newline>**Answer:** ''
               @ ''Error communicating with Gemini AI: quota exceeded'')
            ''#4CAF50'')"
  by code_simp

section \<open>The formatter and the number zero\<close>

text \<open>
  With the cache unset the text is the banner followed by one section per page, each a
  heading and one block per table, each block the table's name, its columns joined by
  commas, and one line per row numbered from 1.
\<close>

lemma rows_loop_eq:
  "rows_loop i rs ft = ft @ concat (map (\<lambda>(i, r). row_line i r) (zip [i ..< i + length rs] rs))"
proof (induction rs arbitrary: i ft)
  case Nil
  then show ?case by simp
next
  case (Cons r rs)
  have "[i ..< i + length (r # rs)] = i # [Suc i ..< Suc i + length rs]"
    by (simp add: upt_rec)
  then show ?case by (simp add: Cons row_line_def)
qed

lemma fmt_tables_loop_eq: "fmt_tables_loop ts ft = ft @ concat (map table_block ts)"
  by (induction ts arbitrary: ft) (simp_all add: rows_loop_eq table_block_def)

lemma fmt_pages_loop_eq: "fmt_pages_loop ps ft = ft @ concat (map page_block ps)"
  by (induction ps arbitrary: ft) (simp_all add: fmt_tables_loop_eq page_block_def)

lemma format_structure:
  "formatted_data_cache s = None \<Longrightarrow>
   fst (format_data_for_gemini coda_data s)
     = ''CODA DOCUMENT DATA:\<newline>\<newline>'' @ concat (map page_block coda_data)"
  by (simp add: format_data_for_gemini_def fmt_pages_loop_eq Let_def)

text \<open>
  C9. The formatter leaves a pair out when its value is in the list under Python's
  \<^verbatim>\<open>==\<close>, and \<^verbatim>\<open>0 == False\<close> holds: the pair \<^verbatim>\<open>Qty: 0\<close> of the first row is
  missing from its line, though the number zero is none of \<^verbatim>\<open>None\<close>, \<^verbatim>\<open>""\<close>,
  \<^verbatim>\<open>False\<close> and \<^verbatim>\<open>"False"\<close>.
\<close>

theorem zero_value_dropped:
  "fst (format_data_for_gemini zero_data init_state) =
     ''CODA DOCUMENT DATA:\<newline>\<newline>=== PAGE: P1 ===\<newline>\<newline>TABLE: T1\<newline>Columns: Name, Qty\<newline>1. Name: A\<newline>2. Name: B | Qty: 2\<newline>\<newline>''"
  by code_simp

end
